theory Spec2Isabelle
  imports Complex_Main "HOL-Library.Multiset"
begin

section \<open>Data model\<close>

text \<open>
  The tables of the Prisma schema that the request handlers touch. Identifiers are strings
  (cuid), \<open>Decimal(12, 2)\<close> columns and JavaScript numbers are exact rationals, and a
  \<open>DateTime\<close> is its timestamp. Binary floating-point rounding, the rounding of a
  \<open>Decimal\<close> column to two places, \<open>NaN\<close> and \<open>Invalid Date\<close> are outside
  the model, as are the \<open>createdAt\<close>/\<open>updatedAt\<close> columns. Every handler is
  modelled after its session check: the first argument is \<open>session.user.id\<close>.
\<close>

datatype TransactionType = INCOME | EXPENSE | TRANSFER

datatype CategoryType = CatINCOME | CatEXPENSE

datatype Period = WEEKLY | MONTHLY | QUARTERLY | YEARLY

record bankAccount =
  acc_name :: string
  acc_type :: string
  balance :: rat
  currency :: string
  acc_description :: "string option"
  isActive :: bool
  acc_userId :: string

record category =
  cat_name :: string
  cat_type :: CategoryType
  isDefault :: bool
  cat_userId :: string

record transaction =
  tx_id :: string
  tx_amount :: rat
  tx_type :: TransactionType
  tx_description :: "string option"
  tx_notes :: "string option"
  tx_date :: int
  tx_userId :: string
  tx_accountId :: string
  tx_categoryId :: string

record budget =
  bud_id :: string
  bud_name :: string
  bud_amount :: rat
  bud_period :: Period
  startDate :: int
  endDate :: int
  bud_userId :: string
  bud_categoryId :: "string option"

text \<open>
  The store: accounts and categories by primary key, transactions and budgets as their
  rows (they are searched by other columns and summed).
\<close>

record db =
  bankAccounts :: "string \<rightharpoonup> bankAccount"
  categories :: "string \<rightharpoonup> category"
  transactions :: "transaction list"
  budgets :: "budget list"

text \<open>An error response: the HTTP status and the \<open>error\<close> text of the JSON body.\<close>

datatype error = Error nat string

section \<open>Balance Ledger Updater: the transaction handlers\<close>

text \<open>
  The JSON body of a transaction request. \<open>req_amount = None\<close> is a falsy
  \<open>amount\<close> (absent, \<open>0\<close>, the empty string); \<open>Some a\<close> is a truthy one with
  \<open>parseFloat(amount) = a\<close> (the string \<open>"0"\<close> is truthy and parses to 0). A string
  field is falsy when empty; \<open>req_date = Some d\<close> is a truthy date string with
  \<open>new Date(date) = d\<close>.
\<close>

record transactionRequest =
  req_amount :: "rat option"
  req_type :: string
  req_description :: string
  req_notes :: string
  req_date :: "int option"
  req_accountId :: string
  req_categoryId :: string

text \<open>\<open>['INCOME', 'EXPENSE', 'TRANSFER'].includes(type)\<close>, with the enum value it names.\<close>

definition parse_type :: "string \<Rightarrow> TransactionType option" where
  "parse_type t =
     (if t = ''INCOME'' then Some INCOME
      else if t = ''EXPENSE'' then Some EXPENSE
      else if t = ''TRANSFER'' then Some TRANSFER
      else None)"

text \<open>\<open>prisma.bankAccount.findFirst({ where: { id, userId } })\<close> and the same for a category.\<close>

definition findFirst_account :: "string \<Rightarrow> string \<Rightarrow> db \<Rightarrow> bankAccount option" where
  "findFirst_account aid uid s =
     (case bankAccounts s aid of
        None \<Rightarrow> None
      | Some a \<Rightarrow> if acc_userId a = uid then Some a else None)"

definition findFirst_category :: "string \<Rightarrow> string \<Rightarrow> db \<Rightarrow> category option" where
  "findFirst_category cid uid s =
     (case categories s cid of
        None \<Rightarrow> None
      | Some c \<Rightarrow> if cat_userId c = uid then Some c else None)"

text \<open>\<open>prisma.transaction.findFirst({ where: { id, userId } })\<close>.\<close>

definition findFirst_transaction :: "string \<Rightarrow> string \<Rightarrow> db \<Rightarrow> transaction option" where
  "findFirst_transaction tid uid s =
     find (\<lambda>t. tx_id t = tid \<and> tx_userId t = uid) (transactions s)"

text \<open>
  The validation block, textually the same in POST (app/api/transactions/route.ts, lines
  114-171) and in PUT (unnamed/part_001, lines 97-154). It returns the first error in the
  source's order, or the parsed amount, date and type.
\<close>

definition validate_transaction ::
  "string \<Rightarrow> transactionRequest \<Rightarrow> db \<Rightarrow> error + (rat \<times> int \<times> TransactionType)" where
  "validate_transaction uid req s =
     (case (req_amount req, req_date req) of
        (Some a, Some d) \<Rightarrow>
          if req_type req = [] \<or> req_accountId req = [] \<or> req_categoryId req = []
          then Inl (Error 400 ''Missing required fields'')
          else (case parse_type (req_type req) of
             None \<Rightarrow> Inl (Error 400 ''Invalid transaction type'')
           | Some ty \<Rightarrow>
               if a \<le> 0 then Inl (Error 400 ''Amount must be positive'')
               else (case findFirst_account (req_accountId req) uid s of
                  None \<Rightarrow> Inl (Error 404 ''Account not found'')
                | Some account \<Rightarrow>
                    (case findFirst_category (req_categoryId req) uid s of
                       None \<Rightarrow> Inl (Error 404 ''Category not found'')
                     | Some cat \<Rightarrow>
                         if (ty = INCOME \<and> cat_type cat \<noteq> CatINCOME) \<or>
                            (ty = EXPENSE \<and> cat_type cat \<noteq> CatEXPENSE)
                         then Inl (Error 400 ''Category type does not match transaction type'')
                         else Inr (a, d, ty))))
      | _ \<Rightarrow> Inl (Error 400 ''Missing required fields''))"

text \<open>
  \<open>tx.bankAccount.update({ where: { id }, data: { balance: { increment } } })\<close>.
  Prisma throws when no row has the id: \<open>None\<close>.
\<close>

definition balance_increment ::
  "string \<Rightarrow> rat \<Rightarrow> (string \<rightharpoonup> bankAccount) \<Rightarrow> (string \<rightharpoonup> bankAccount) option" where
  "balance_increment aid delta accs =
     (case accs aid of
        None \<Rightarrow> None
      | Some a \<Rightarrow> Some (accs(aid \<mapsto> a\<lparr>balance := balance a + delta\<rparr>)))"

text \<open>\<open>description || null\<close>.\<close>

definition or_null :: "string \<Rightarrow> string option" where
  "or_null x = (if x = [] then None else Some x)"

text \<open>
  POST /api/transactions (app/api/transactions/route.ts). \<open>newId\<close> is the cuid
  that Prisma generates for the row; the insert fails on a primary key that is already
  there. A throw inside \<open>prisma.$transaction\<close> rolls everything back and the
  handler answers 500.
\<close>

definition transaction_POST ::
  "string \<Rightarrow> string \<Rightarrow> transactionRequest \<Rightarrow> db \<Rightarrow> (error + transaction) \<times> db" where
  "transaction_POST uid newId req s =
     (case validate_transaction uid req s of
        Inl e \<Rightarrow> (Inl e, s)
      | Inr (a, d, ty) \<Rightarrow>
          if newId \<in> set (map tx_id (transactions s))
          then (Inl (Error 500 ''Internal server error''), s)
          else
            let row = \<lparr>tx_id = newId, tx_amount = a, tx_type = ty,
                       tx_description = or_null (req_description req),
                       tx_notes = or_null (req_notes req), tx_date = d, tx_userId = uid,
                       tx_accountId = req_accountId req, tx_categoryId = req_categoryId req\<rparr>;
                balanceChange = (if ty = INCOME then a else - a)
            in (case balance_increment (req_accountId req) balanceChange (bankAccounts s) of
                  None \<Rightarrow> (Inl (Error 500 ''Internal server error''), s)
                | Some accs \<Rightarrow>
                    (Inr row, s\<lparr>transactions := transactions s @ [row], bankAccounts := accs\<rparr>)))"

text \<open>
  PUT /api/transactions/[id] (unnamed/part_001). The existing row is looked up before the
  validation. Both branches of the source's test on the account apply the same reversal
  to the old account.
\<close>

definition transaction_PUT ::
  "string \<Rightarrow> string \<Rightarrow> transactionRequest \<Rightarrow> db \<Rightarrow> (error + transaction) \<times> db" where
  "transaction_PUT uid transactionId req s =
     (case findFirst_transaction transactionId uid s of
        None \<Rightarrow> (Inl (Error 404 ''Transaction not found''), s)
      | Some existingTransaction \<Rightarrow>
          (case validate_transaction uid req s of
             Inl e \<Rightarrow> (Inl e, s)
           | Inr (a, d, ty) \<Rightarrow>
               let oldBalanceChange =
                     (if tx_type existingTransaction = INCOME
                      then - tx_amount existingTransaction
                      else tx_amount existingTransaction);
                   reversed =
                     (if tx_accountId existingTransaction = req_accountId req
                      then balance_increment (tx_accountId existingTransaction)
                             oldBalanceChange (bankAccounts s)
                      else balance_increment (tx_accountId existingTransaction)
                             oldBalanceChange (bankAccounts s))
               in (case reversed of
                     None \<Rightarrow> (Inl (Error 500 ''Internal server error''), s)
                   | Some accs1 \<Rightarrow>
                       let updatedTransaction =
                             existingTransaction\<lparr>tx_amount := a, tx_type := ty,
                               tx_description := or_null (req_description req),
                               tx_notes := or_null (req_notes req), tx_date := d,
                               tx_accountId := req_accountId req,
                               tx_categoryId := req_categoryId req\<rparr>;
                           newBalanceChange = (if ty = INCOME then a else - a)
                       in (case balance_increment (req_accountId req) newBalanceChange accs1 of
                             None \<Rightarrow> (Inl (Error 500 ''Internal server error''), s)
                           | Some accs2 \<Rightarrow>
                               (Inr updatedTransaction,
                                s\<lparr>transactions :=
                                     map (\<lambda>t. if tx_id t = transactionId
                                               then updatedTransaction else t)
                                       (transactions s),
                                   bankAccounts := accs2\<rparr>)))))"










definition category_mismatch :: "string \<Rightarrow> transactionRequest \<Rightarrow> db \<Rightarrow> bool" where
  "category_mismatch uid req s =
     (case findFirst_category (req_categoryId req) uid s of
        None \<Rightarrow> False
      | Some cat \<Rightarrow>
          (req_type req = ''INCOME'' \<and> cat_type cat \<noteq> CatINCOME) \<or>
          (req_type req = ''EXPENSE'' \<and> cat_type cat \<noteq> CatEXPENSE))"

section \<open>Accounts\<close>

text \<open>
  The JSON body of an account request. \<open>areq_balance = None\<close> is an absent
  \<open>balance\<close>, \<open>Some b\<close> one with \<open>Number(balance) = b\<close>;
  \<open>areq_description = None\<close> is an absent description, \<open>Some None\<close> is
  \<open>null\<close>.
\<close>

record accountRequest =
  areq_name :: string
  areq_type :: string
  areq_balance :: "rat option"
  areq_currency :: string
  areq_description :: "string option option"

definition validTypes :: "string list" where
  "validTypes = [''CHECKING'', ''SAVINGS'', ''CREDIT_CARD'', ''CASH'', ''INVESTMENT'', ''LOAN'']"

text \<open>
  POST /api/accounts (the second part of app/api/accounts/[id]/route.ts):
  \<open>balance ? Number(balance) : 0\<close>, \<open>currency || 'IDR'\<close>,
  \<open>description || null\<close>. \<open>newId\<close> is the generated cuid.
\<close>

definition account_POST ::
  "string \<Rightarrow> string \<Rightarrow> accountRequest \<Rightarrow> db \<Rightarrow> (error + bankAccount) \<times> db" where
  "account_POST uid newId req s =
     (if areq_name req = [] \<or> areq_type req = []
      then (Inl (Error 400 ''Name and type are required''), s)
      else if areq_type req \<notin> set validTypes
      then (Inl (Error 400 ''Invalid account type''), s)
      else if bankAccounts s newId \<noteq> None
      then (Inl (Error 500 ''Internal server error''), s)
      else
        let account = \<lparr>acc_name = areq_name req, acc_type = areq_type req,
                         balance = (case areq_balance req of None \<Rightarrow> 0 | Some b \<Rightarrow> b),
                         currency = (if areq_currency req = [] then ''IDR''
                                     else areq_currency req),
                         acc_description =
                           (case areq_description req of
                              None \<Rightarrow> None
                            | Some None \<Rightarrow> None
                            | Some (Some d) \<Rightarrow> or_null d),
                         isActive = True, acc_userId = uid\<rparr>
        in (Inr account, s\<lparr>bankAccounts := (bankAccounts s)(newId \<mapsto> account)\<rparr>))"



section \<open>Budget Overlap Validator: the budget handlers\<close>

text \<open>
  The body of POST /api/budgets and what \<open>BudgetSchema.parse\<close> makes of it: a name of
  at least one character, a positive amount, a period of the enum. A failed parse throws
  a \<open>ZodError\<close>, answered 400.
\<close>

record budgetRequest =
  breq_name :: string
  breq_amount :: rat
  breq_period :: string
  breq_categoryId :: "string option"
  breq_startDate :: int
  breq_endDate :: int

record validatedBudget =
  v_name :: string
  v_amount :: rat
  v_period :: Period
  v_categoryId :: "string option"
  v_startDate :: int
  v_endDate :: int

definition parse_period :: "string \<Rightarrow> Period option" where
  "parse_period p =
     (if p = ''WEEKLY'' then Some WEEKLY
      else if p = ''MONTHLY'' then Some MONTHLY
      else if p = ''QUARTERLY'' then Some QUARTERLY
      else if p = ''YEARLY'' then Some YEARLY
      else None)"

definition BudgetSchema_parse :: "budgetRequest \<Rightarrow> validatedBudget option" where
  "BudgetSchema_parse body =
     (case parse_period (breq_period body) of
        None \<Rightarrow> None
      | Some p \<Rightarrow>
          if breq_name body = [] \<or> breq_amount body \<le> 0 then None
          else Some \<lparr>v_name = breq_name body, v_amount = breq_amount body, v_period = p,
                      v_categoryId = breq_categoryId body, v_startDate = breq_startDate body,
                      v_endDate = breq_endDate body\<rparr>)"

text \<open>\<open>validatedData.categoryId || null\<close>: an empty or absent id is \<open>null\<close>.\<close>

definition categoryId_or_null :: "string option \<Rightarrow> string option" where
  "categoryId_or_null c = (case c of None \<Rightarrow> None | Some x \<Rightarrow> if x = [] then None else Some x)"

text \<open>
  The \<open>OR\<close> of the overlap query, for a stored window \<open>[s1, e1]\<close> and the request's
  window \<open>[s2, e2]\<close>: the request's start lies in the stored window, or its end does, or
  the stored window lies inside the request's.
\<close>

definition date_overlap :: "int \<Rightarrow> int \<Rightarrow> int \<Rightarrow> int \<Rightarrow> bool" where
  "date_overlap s1 e1 s2 e2 =
     ((s1 \<le> s2 \<and> e1 \<ge> s2) \<or> (s1 \<le> e2 \<and> e1 \<ge> e2) \<or> (s1 \<ge> s2 \<and> e1 \<le> e2))"

text \<open>The \<open>where\<close> of the overlap query: same user, same category scope, windows as above.\<close>

definition overlap_where :: "string \<Rightarrow> validatedBudget \<Rightarrow> budget \<Rightarrow> bool" where
  "overlap_where uid validatedData b =
     (bud_userId b = uid \<and>
      bud_categoryId b = categoryId_or_null (v_categoryId validatedData) \<and>
      date_overlap (startDate b) (endDate b)
        (v_startDate validatedData) (v_endDate validatedData))"

text \<open>POST /api/budgets. \<open>newId\<close> is the generated cuid.\<close>

definition budget_POST ::
  "string \<Rightarrow> string \<Rightarrow> budgetRequest \<Rightarrow> db \<Rightarrow> (error + budget) \<times> db" where
  "budget_POST uid newId body s =
     (case BudgetSchema_parse body of
        None \<Rightarrow> (Inl (Error 400 ''Data tidak valid''), s)
      | Some validatedData \<Rightarrow>
          if (case categoryId_or_null (v_categoryId validatedData) of
                None \<Rightarrow> False
              | Some c \<Rightarrow> findFirst_category c uid s = None)
          then (Inl (Error 404 ''Kategori tidak ditemukan''), s)
          else (case find (overlap_where uid validatedData) (budgets s) of
             Some existingBudget \<Rightarrow>
               (Inl (Error 400 ''Budget untuk periode dan kategori ini sudah ada''), s)
           | None \<Rightarrow>
               if newId \<in> set (map bud_id (budgets s))
               then (Inl (Error 500 ''Internal server error''), s)
               else
                 let budget = \<lparr>bud_id = newId, bud_name = v_name validatedData,
                                bud_amount = v_amount validatedData,
                                bud_period = v_period validatedData,
                                startDate = v_startDate validatedData,
                                endDate = v_endDate validatedData, bud_userId = uid,
                                bud_categoryId = categoryId_or_null (v_categoryId validatedData)\<rparr>
                 in (Inr budget, s\<lparr>budgets := budgets s @ [budget]\<rparr>)))"

text \<open>
  The body of PUT /api/budgets/[id]: every field is optional, and
  \<open>BudgetUpdateSchema.parse\<close> checks the ones that are there.
\<close>

record budgetUpdateRequest =
  upd_name :: "string option"
  upd_amount :: "rat option"
  upd_period :: "string option"
  upd_categoryId :: "string option"
  upd_startDate :: "int option"
  upd_endDate :: "int option"

definition BudgetUpdateSchema_ok :: "budgetUpdateRequest \<Rightarrow> bool" where
  "BudgetUpdateSchema_ok body =
     ((case upd_name body of None \<Rightarrow> True | Some n \<Rightarrow> n \<noteq> []) \<and>
      (case upd_amount body of None \<Rightarrow> True | Some a \<Rightarrow> 0 < a) \<and>
      (case upd_period body of None \<Rightarrow> True | Some p \<Rightarrow> parse_period p \<noteq> None))"

text \<open>\<open>prisma.budget.findFirst({ where: { id, userId } })\<close>.\<close>

definition findFirst_budget :: "string \<Rightarrow> string \<Rightarrow> db \<Rightarrow> budget option" where
  "findFirst_budget bid uid s = find (\<lambda>b. bud_id b = bid \<and> bud_userId b = uid) (budgets s)"

text \<open>
  \<open>data: validatedData\<close>: the fields that are present replace the row's. The period has
  passed the schema, so it parses.
\<close>

definition budget_update_data :: "budgetUpdateRequest \<Rightarrow> budget \<Rightarrow> budget" where
  "budget_update_data body b =
     b\<lparr>bud_name := (case upd_name body of None \<Rightarrow> bud_name b | Some n \<Rightarrow> n),
       bud_amount := (case upd_amount body of None \<Rightarrow> bud_amount b | Some a \<Rightarrow> a),
       bud_period := (case upd_period body of
                        None \<Rightarrow> bud_period b
                      | Some p \<Rightarrow> (case parse_period p of None \<Rightarrow> bud_period b | Some q \<Rightarrow> q)),
       bud_categoryId := (case upd_categoryId body of None \<Rightarrow> bud_categoryId b | Some c \<Rightarrow> Some c),
       startDate := (case upd_startDate body of None \<Rightarrow> startDate b | Some d \<Rightarrow> d),
       endDate := (case upd_endDate body of None \<Rightarrow> endDate b | Some d \<Rightarrow> d)\<rparr>"

text \<open>
  PUT /api/budgets/[id]: schema, lookup of the row, lookup of a non-empty category, then
  the update. There is no overlap query. A category id that no category row has (the
  empty string skips the lookup) violates the foreign key: the update throws, 500.
\<close>

definition budget_PUT ::
  "string \<Rightarrow> string \<Rightarrow> budgetUpdateRequest \<Rightarrow> db \<Rightarrow> (error + budget) \<times> db" where
  "budget_PUT uid bid body s =
     (if \<not> BudgetUpdateSchema_ok body then (Inl (Error 400 ''Data tidak valid''), s)
      else (case findFirst_budget bid uid s of
         None \<Rightarrow> (Inl (Error 404 ''Budget tidak ditemukan''), s)
       | Some existingBudget \<Rightarrow>
           if (case categoryId_or_null (upd_categoryId body) of
                 None \<Rightarrow> False
               | Some c \<Rightarrow> findFirst_category c uid s = None)
           then (Inl (Error 404 ''Kategori tidak ditemukan''), s)
           else if (case upd_categoryId body of None \<Rightarrow> False | Some c \<Rightarrow> categories s c = None)
           then (Inl (Error 500 ''Internal server error''), s)
           else
             let budget = budget_update_data body existingBudget
             in (Inr budget,
                 s\<lparr>budgets := map (\<lambda>b. if bud_id b = bid then budget else b) (budgets s)\<rparr>)))"

text \<open>DELETE /api/budgets/[id].\<close>

definition budget_DELETE :: "string \<Rightarrow> string \<Rightarrow> db \<Rightarrow> (error + unit) \<times> db" where
  "budget_DELETE uid bid s =
     (case findFirst_budget bid uid s of
        None \<Rightarrow> (Inl (Error 404 ''Budget tidak ditemukan''), s)
      | Some existingBudget \<Rightarrow>
          (Inr (), s\<lparr>budgets := filter (\<lambda>b. bud_id b \<noteq> bid) (budgets s)\<rparr>))"

text \<open>
  The invariant of the data model, in the spec's words: no two budgets of the same owner
  and the same category scope have windows with a date in common.
\<close>

definition budgets_conflict :: "budget \<Rightarrow> budget \<Rightarrow> bool" where
  "budgets_conflict b c =
     (bud_userId b = bud_userId c \<and> bud_categoryId b = bud_categoryId c \<and>
      max (startDate b) (startDate c) \<le> min (endDate b) (endDate c))"

fun conflict_free :: "budget \<Rightarrow> budget list \<Rightarrow> bool" where
  "conflict_free b [] = True"
| "conflict_free b (c # cs) = (\<not> budgets_conflict b c \<and> conflict_free b cs)"

fun no_overlap :: "budget list \<Rightarrow> bool" where
  "no_overlap [] = True"
| "no_overlap (b # bs) = (conflict_free b bs \<and> no_overlap bs)"

section \<open>Budget Evaluator\<close>

text \<open>
  A budget row with the computed fields that the three views add to it. The factor
  \<open>0.1\<close> of the status rule is the rational 1/10.
\<close>

record budgetWithSpending =
  bws_budget :: budget
  bws_amount :: rat
  totalSpent :: rat
  remaining :: rat
  percentageUsed :: rat
  status :: string

text \<open>\<open>Math.round\<close>: the nearest integer, a half rounded up.\<close>

definition Math_round :: "rat \<Rightarrow> int" where
  "Math_round x = \<lfloor>x + 1 / 2\<rfloor>"







text \<open>
  GET /api/budgets/summary, the summary view (its handler is the second part of
  app/api/auth/register/route.ts): the callback mapped over the active budgets queries the
  rows (lines 141-159) ...
\<close>

definition summary_GET_transactions :: "string \<Rightarrow> db \<Rightarrow> budget \<Rightarrow> transaction list" where
  "summary_GET_transactions uid s budget =
     filter (\<lambda>t. tx_userId t = uid \<and> tx_type t = EXPENSE \<and>
                 tx_date t \<ge> startDate budget \<and> tx_date t \<le> endDate budget \<and>
                 (case bud_categoryId budget of
                    None \<Rightarrow> True
                  | Some c \<Rightarrow> if c = [] then True else tx_categoryId t = c))
       (transactions s)"

text \<open>... and evaluates the budget on them (lines 161-177).\<close>

definition summary_GET_evaluate :: "budget \<Rightarrow> transaction list \<Rightarrow> budgetWithSpending" where
  "summary_GET_evaluate budget transactions' =
     (let totalSpent' = foldl (\<lambda>sum t. sum + tx_amount t) 0 transactions';
          budgetAmount = bud_amount budget;
          remaining' = budgetAmount - totalSpent';
          percentageUsed' = (if budgetAmount > 0 then (totalSpent' / budgetAmount) * 100 else 0)
      in \<lparr>bws_budget = budget, bws_amount = budgetAmount, totalSpent = totalSpent',
          remaining = remaining',
          percentageUsed = of_int (Math_round (percentageUsed' * 100)) / 100,
          status = (if remaining' < 0 then ''overbudget''
                    else if remaining' < budgetAmount * (1 / 10) then ''warning''
                    else ''good'')\<rparr>)"

definition summary_GET_spending :: "string \<Rightarrow> db \<Rightarrow> budget \<Rightarrow> budgetWithSpending" where
  "summary_GET_spending uid s budget =
     summary_GET_evaluate budget (summary_GET_transactions uid s budget)"

text \<open>A recommendation, and the decimal digits of a count inside a template literal.\<close>

record recommendation =
  rec_type :: string
  rec_title :: string
  rec_message :: string

fun string_of_nat :: "nat \<Rightarrow> string" where
  "string_of_nat n =
     (if n < 10 then [char_of (48 + n)]
      else string_of_nat (n div 10) @ [char_of (48 + n mod 10)])"

text \<open>The five object literals that \<open>generateRecommendations\<close> pushes.\<close>

definition rec_overbudget :: "nat \<Rightarrow> recommendation" where
  "rec_overbudget n =
     \<lparr>rec_type = ''warning'', rec_title = ''Budget Terlampaui'',
      rec_message = ''Anda telah melampaui budget di '' @ string_of_nat n @
        '' kategori. Pertimbangkan untuk mengurangi pengeluaran atau menyesuaikan budget.''\<rparr>"

definition rec_warning :: "nat \<Rightarrow> recommendation" where
  "rec_warning n =
     \<lparr>rec_type = ''info'', rec_title = ''Mendekati Batas Budget'',
      rec_message = ''Budget Anda di '' @ string_of_nat n @
        '' kategori hampir habis. Pantau pengeluaran dengan lebih ketat.''\<rparr>"

definition rec_high_spending :: recommendation where
  "rec_high_spending =
     \<lparr>rec_type = ''warning'', rec_title = ''Total Pengeluaran Tinggi'',
      rec_message = ''Anda telah menggunakan lebih dari 90% dari total budget. '' @
        ''Pertimbangkan untuk lebih berhemat.''\<rparr>"

definition rec_well_managed :: recommendation where
  "rec_well_managed =
     \<lparr>rec_type = ''success'', rec_title = ''Pengelolaan Budget Baik'',
      rec_message = ''Selamat! Anda berhasil mengelola budget dengan baik. '' @
        ''Pertimbangkan untuk menabung lebih banyak.''\<rparr>"

definition rec_first_budget :: recommendation where
  "rec_first_budget =
     \<lparr>rec_type = ''info'', rec_title = ''Buat Budget Pertama'',
      rec_message = ''Mulai kelola keuangan dengan membuat budget untuk '' @
        ''kategori pengeluaran Anda.''\<rparr>"

text \<open>\<open>generateRecommendations(budgets, totalSpent, totalBudget)\<close>, push by push.\<close>

definition generateRecommendations ::
  "budgetWithSpending list \<Rightarrow> rat \<Rightarrow> rat \<Rightarrow> recommendation list" where
  "generateRecommendations budgets' totalSpent' totalBudget =
     (let recommendations = [];
          overbudgetBudgets = filter (\<lambda>b. status b = ''overbudget'') budgets';
          recommendations =
            (if length overbudgetBudgets > 0
             then recommendations @ [rec_overbudget (length overbudgetBudgets)]
             else recommendations);
          warningBudgets = filter (\<lambda>b. status b = ''warning'') budgets';
          recommendations =
            (if length warningBudgets > 0
             then recommendations @ [rec_warning (length warningBudgets)]
             else recommendations);
          overallPercentage = (if totalBudget > 0 then (totalSpent' / totalBudget) * 100 else 0);
          recommendations =
            (if overallPercentage > 90 then recommendations @ [rec_high_spending]
             else if overallPercentage < 50 then recommendations @ [rec_well_managed]
             else recommendations);
          recommendations =
            (if length budgets' = 0 then recommendations @ [rec_first_budget]
             else recommendations)
      in recommendations)"

text \<open>
  GET /api/budgets/summary: the active budgets of the period, their spending, the totals
  and the recommendations. The status counts, the spending trends and the lists of
  overspent and ending budgets are not modelled.
\<close>

record budgetSummary =
  totalBudgets :: nat
  totalBudgetAmount :: rat
  sum_totalSpent :: rat
  totalRemaining :: rat
  overallPercentageUsed :: rat
  activeBudgets :: "budgetWithSpending list"
  recommendations :: "recommendation list"

definition summary_GET :: "string \<Rightarrow> string \<Rightarrow> int \<Rightarrow> db \<Rightarrow> error + budgetSummary" where
  "summary_GET uid period now s =
     (case parse_period (if period = [] then ''MONTHLY'' else period) of
        None \<Rightarrow> Inl (Error 500 ''Internal server error'')
      | Some p \<Rightarrow>
          let activeBudgets' =
                filter (\<lambda>b. bud_userId b = uid \<and> bud_period b = p \<and>
                            startDate b \<le> now \<and> endDate b \<ge> now) (budgets s);
              budgetSummary' = map (summary_GET_spending uid s) activeBudgets';
              totalBudgetAmount' = foldl (\<lambda>sum b. sum + bws_amount b) 0 budgetSummary';
              totalSpent' = foldl (\<lambda>sum b. sum + totalSpent b) 0 budgetSummary';
              totalRemaining' = totalBudgetAmount' - totalSpent';
              overallPercentageUsed' =
                (if totalBudgetAmount' > 0 then (totalSpent' / totalBudgetAmount') * 100 else 0)
          in Inr \<lparr>totalBudgets = length activeBudgets',
                   totalBudgetAmount = totalBudgetAmount', sum_totalSpent = totalSpent',
                   totalRemaining = totalRemaining',
                   overallPercentageUsed = of_int (Math_round (overallPercentageUsed' * 100)) / 100,
                   activeBudgets = budgetSummary',
                   recommendations =
                     generateRecommendations budgetSummary' totalSpent' totalBudgetAmount'\<rparr>)"

section \<open>Example data\<close>

definition ex_account :: bankAccount where
  "ex_account = \<lparr>acc_name = ''Wallet'', acc_type = ''CASH'', balance = 1000000,
     currency = ''IDR'', acc_description = None, isActive = True, acc_userId = ''u1''\<rparr>"

definition ex_savings :: bankAccount where
  "ex_savings = \<lparr>acc_name = ''Savings'', acc_type = ''SAVINGS'', balance = 500,
     currency = ''IDR'', acc_description = None, isActive = True, acc_userId = ''u1''\<rparr>"

definition ex_db :: db where
  "ex_db = \<lparr>bankAccounts = [''acc1'' \<mapsto> ex_account, ''acc2'' \<mapsto> ex_savings],
     categories = [''catE'' \<mapsto> \<lparr>cat_name = ''Shopping'', cat_type = CatEXPENSE,
                                  isDefault = True, cat_userId = ''u1''\<rparr>,
                   ''catI'' \<mapsto> \<lparr>cat_name = ''Salary'', cat_type = CatINCOME,
                                  isDefault = True, cat_userId = ''u1''\<rparr>],
     transactions = [], budgets = []\<rparr>"



text \<open>A budget of 1000 for June 2025, and a store with expenses inside and outside its window.\<close>

definition ex_budget :: budget where
  "ex_budget = \<lparr>bud_id = ''b1'', bud_name = ''June'', bud_amount = 1000, bud_period = MONTHLY,
     startDate = 20250601, endDate = 20250630, bud_userId = ''u1'', bud_categoryId = None\<rparr>"




definition ex_july :: budget where
  "ex_july = \<lparr>bud_id = ''b2'', bud_name = ''July'', bud_amount = 1000, bud_period = MONTHLY,
     startDate = 20250701, endDate = 20250731, bud_userId = ''u1'', bud_categoryId = None\<rparr>"

definition ex_two_budgets_db :: db where
  "ex_two_budgets_db = ex_db\<lparr>budgets := [ex_budget, ex_july]\<rparr>"

definition ex_budget_request :: "int \<Rightarrow> int \<Rightarrow> budgetRequest" where
  "ex_budget_request s e = \<lparr>breq_name = ''Summer'', breq_amount = 500, breq_period = ''MONTHLY'',
     breq_categoryId = None, breq_startDate = s, breq_endDate = e\<rparr>"

definition ex_move_start :: "int \<Rightarrow> budgetUpdateRequest" where
  "ex_move_start d = \<lparr>upd_name = None, upd_amount = None, upd_period = None,
     upd_categoryId = None, upd_startDate = Some d, upd_endDate = None\<rparr>"



section \<open>The balance invariant\<close>












lemma find_tx_id:
  "find (\<lambda>t. tx_id t = tid \<and> tx_userId t = uid) txs = Some ex \<Longrightarrow> tx_id ex = tid"
  by (auto simp: find_Some_iff)














section \<open>Validation failures leave the store unchanged\<close>

lemma transaction_POST_error:
  "fst (transaction_POST uid newId req s) = Inl e \<Longrightarrow> snd (transaction_POST uid newId req s) = s"
  by (auto simp: transaction_POST_def Let_def split: sum.splits prod.splits option.splits if_splits)

lemma transaction_PUT_error:
  "fst (transaction_PUT uid tid req s) = Inl e \<Longrightarrow> snd (transaction_PUT uid tid req s) = s"
  by (auto simp: transaction_PUT_def Let_def split: sum.splits prod.splits option.splits)



lemma validate_mismatch:
  assumes "category_mismatch uid req s" and "req_amount req = Some a" and "0 < a"
    and "req_date req = Some d" and "req_accountId req \<noteq> []" and "req_categoryId req \<noteq> []"
    and "findFirst_account (req_accountId req) uid s = Some acc"
  shows "validate_transaction uid req s =
           Inl (Error 400 ''Category type does not match transaction type'')"
  using assms
  by (auto simp: category_mismatch_def validate_transaction_def parse_type_def
           split: option.splits if_splits)








section \<open>Update: reversal, then the new effect\<close>






section \<open>Transfers\<close>





section \<open>Budget evaluation and overlap test\<close>







text \<open>
  C5. For a stored window [s1, e1] and a requested window [s2, e2], both with start not
  after end, the three-part test of the creation handler holds exactly when
  s1 <= e2 and s2 <= e1; and the boundaries are closed: a window that ends on the date on
  which the other starts overlaps it.
\<close>

theorem date_overlap_standard:
  assumes "s1 \<le> e1" and "s2 \<le> e2"
  shows "(date_overlap s1 e1 s2 e2 \<longleftrightarrow> s1 \<le> e2 \<and> s2 \<le> e1) \<and>
         (e1 = s2 \<or> e2 = s1 \<longrightarrow> date_overlap s1 e1 s2 e2)"
  using assms unfolding date_overlap_def by auto

text \<open>
  C5, witness: the windows of the spec's examples, one starting inside the stored window,
  one ending on its first day, and one starting the day after its last.
\<close>

theorem date_overlap_standard_witness:
  "(20250615::int) \<le> 20250715 \<and> (20250701::int) \<le> 20250731 \<and>
   date_overlap 20250615 20250715 20250701 20250731 \<and>
   date_overlap 20250615 20250715 20250601 20250615 \<and>
   \<not> date_overlap 20250615 20250715 20250716 20250731"
proof -
  have h1: "(20250615::int) \<le> 20250715" and h2: "(20250701::int) \<le> 20250731"
    and h3: "(20250601::int) \<le> 20250615" and h4: "(20250716::int) \<le> 20250731" by simp_all
  show ?thesis
    using date_overlap_standard [OF h1 h2] date_overlap_standard [OF h1 h3]
      date_overlap_standard [OF h1 h4]
    by simp
qed

section \<open>Recommendations\<close>



section \<open>The overlap invariant and the balance frame\<close>

lemma conflict_free_append:
  "conflict_free b (cs @ [c]) \<longleftrightarrow> conflict_free b cs \<and> \<not> budgets_conflict b c"
  by (induction cs) auto

lemma no_overlap_append:
  "no_overlap (bs @ [b]) \<longleftrightarrow> no_overlap bs \<and> (\<forall>c \<in> set bs. \<not> budgets_conflict c b)"
  by (induction bs) (auto simp: conflict_free_append)

lemma conflict_free_filter: "conflict_free b cs \<Longrightarrow> conflict_free b (filter P cs)"
  by (induction cs) auto

lemma no_overlap_filter: "no_overlap bs \<Longrightarrow> no_overlap (filter P bs)"
  by (induction bs) (auto simp: conflict_free_filter)

lemma conflict_is_overlap:
  assumes "budgets_conflict c b"
  shows "date_overlap (startDate c) (endDate c) (startDate b) (endDate b)"
  using assms unfolding budgets_conflict_def date_overlap_def by auto

lemma budget_POST_error:
  "fst (budget_POST uid newId body s) = Inl e \<Longrightarrow> snd (budget_POST uid newId body s) = s"
  by (auto simp: budget_POST_def Let_def split: option.splits if_splits)

lemma budget_POST_rejects_overlap:
  assumes "BudgetSchema_parse body = Some v"
    and "case categoryId_or_null (v_categoryId v) of None \<Rightarrow> True
         | Some c \<Rightarrow> findFirst_category c uid s \<noteq> None"
    and "c \<in> set (budgets s)" and "overlap_where uid v c"
  shows "budget_POST uid newId body s =
           (Inl (Error 400 ''Budget untuk periode dan kategori ini sudah ada''), s)"
proof -
  from assms(3,4) have "find (overlap_where uid v) (budgets s) \<noteq> None"
    by (auto simp: find_None_iff)
  then obtain x where "find (overlap_where uid v) (budgets s) = Some x" by auto
  with assms(1,2) show ?thesis
    by (auto simp: budget_POST_def split: option.splits)
qed

lemma budget_POST_no_overlap:
  assumes "no_overlap (budgets s)"
  shows "no_overlap (budgets (snd (budget_POST uid newId body s)))"
proof (cases "fst (budget_POST uid newId body s)")
  case (Inl e)
  then show ?thesis using assms by (simp add: budget_POST_error)
next
  case (Inr b)
  then obtain v where v: "BudgetSchema_parse body = Some v"
    and none: "find (overlap_where uid v) (budgets s) = None"
    and b: "bud_userId b = uid" "bud_categoryId b = categoryId_or_null (v_categoryId v)"
      "startDate b = v_startDate v" "endDate b = v_endDate v"
    and s': "budgets (snd (budget_POST uid newId body s)) = budgets s @ [b]"
    by (auto simp: budget_POST_def Let_def split: option.splits if_splits)
  have "\<not> budgets_conflict c b" if c: "c \<in> set (budgets s)" for c
  proof
    assume conflict: "budgets_conflict c b"
    then have "date_overlap (startDate c) (endDate c) (v_startDate v) (v_endDate v)"
      using conflict_is_overlap b by fastforce
    moreover have "bud_userId c = uid" "bud_categoryId c = categoryId_or_null (v_categoryId v)"
      using conflict b by (simp_all add: budgets_conflict_def)
    ultimately have "overlap_where uid v c" by (simp add: overlap_where_def)
    with none c show False by (auto simp: find_None_iff)
  qed
  with assms s' show ?thesis by (simp add: no_overlap_append)
qed

lemma budget_DELETE_no_overlap:
  "no_overlap (budgets s) \<Longrightarrow> no_overlap (budgets (snd (budget_DELETE uid bid s)))"
  by (auto simp: budget_DELETE_def no_overlap_filter split: option.splits)

lemmas budget_handler_defs = budget_POST_def budget_PUT_def budget_DELETE_def
  BudgetSchema_parse_def BudgetUpdateSchema_ok_def parse_period_def categoryId_or_null_def
  overlap_where_def date_overlap_def findFirst_budget_def budget_update_data_def
  budgets_conflict_def

lemmas budget_db_defs = ex_two_budgets_db_def ex_budget_def ex_july_def ex_db_def
  ex_budget_request_def ex_move_start_def

text \<open>
  C4. With a June and a July budget of the same user and scope in the store the invariant
  holds, and creating a budget from 15 June to 20 July is refused with the store
  unchanged. But the update handler runs no overlap query: moving the July budget's start
  to 15 June succeeds, and the two stored windows then overlap.
\<close>

theorem budget_update_overlap:
  "no_overlap (budgets ex_two_budgets_db) \<and>
   budget_POST ''u1'' ''b3'' (ex_budget_request 20250615 20250720) ex_two_budgets_db =
     (Inl (Error 400 ''Budget untuk periode dan kategori ini sudah ada''), ex_two_budgets_db) \<and>
   budget_PUT ''u1'' ''b2'' (ex_move_start 20250615) ex_two_budgets_db =
     (Inr (ex_july\<lparr>startDate := 20250615\<rparr>),
      ex_two_budgets_db\<lparr>budgets := [ex_budget, ex_july\<lparr>startDate := 20250615\<rparr>]\<rparr>) \<and>
   budgets_conflict ex_budget (ex_july\<lparr>startDate := 20250615\<rparr>) \<and>
   \<not> no_overlap (budgets (snd (budget_PUT ''u1'' ''b2'' (ex_move_start 20250615)
                                 ex_two_budgets_db)))"
  by (simp add: budget_handler_defs budget_db_defs Let_def)



end
